theory Spec2Isabelle
  imports Main "HOL-Library.Word"
begin

unbundle bit_operations_syntax

section \<open>auth-proxy: a shallow embedding of src/app.js\<close>

text \<open>
  The proxy keeps four indices built from YAML documents (tokens, users, roles and the
  grants derived from them), matches each request to a route, authenticates it through a
  header-borne token and authorizes it against the grant index. This theory embeds the
  methods of class \<open>App\<close> that decide those outcomes and the reload of the
  configuration.

  Modelling conventions.
  \<^item> A JavaScript object used as a dictionary (\<open>const index = {}\<close>, the header object
    of a request) is the association list of its own properties, in insertion order,
    together with the prototype every such object has, \<open>Object.prototype\<close>. A read
    \<open>obj[k]\<close> is \<open>read obj k\<close>: the own value, or else the value inherited under that
    name, or else \<open>undefined\<close>. \<open>k in obj\<close> is \<open>has_key k obj\<close>, true for own and for
    inherited names. \<open>obj[k] = v\<close> is \<open>assign k v obj\<close>. \<open>lookup obj k\<close> is the own
    property alone. \<open>Object.entries\<close> lists own string keys
    in insertion order (integer-like keys come first in JavaScript; no result below
    depends on the order of the entries).
  \<^item> \<open>Object.prototype\<close> is taken as the engine starts it. The grant index builder can
    write into the objects it hands out (see \<open>addGrant\<close>); those writes, and reads that
    would see them, are not tracked.
  \<^item> The records of the four documents are typed: a field that the validators require to
    be a string, an array of strings or a boolean has that type here, and an optional
    field is an \<open>option\<close> (\<open>None\<close> when the key is absent). The \<open>typeof\<close> and
    \<open>Array.isArray\<close> checks of the validators are thereby discharged by typing; their
    remaining checks (non-empty strings, compilable patterns) are modelled.
  \<^item> Every \<open>throw\<close> is a value \<open>Inl e\<close> of a result type \<open>error + 'a\<close>.
\<close>

subsection \<open>Values and objects\<close>

text \<open>
  The values a property read can yield beside the typed values the indices store: a
  built-in object or function, named by the path that reaches it (\<open>Object\<close>,
  \<open>Object.prototype\<close>, \<open>Object.prototype.toString\<close>), a string, a number, a boolean or
  \<open>null\<close>. \<open>truthyValue\<close> is ToBoolean.
\<close>

datatype jsvalue =
  Builtin string
  | StringValue string
  | NumberValue int
  | BooleanValue bool
  | NullValue

definition truthyValue :: "jsvalue \<Rightarrow> bool" where
  "truthyValue v =
     (case v of
        Builtin _ \<Rightarrow> True
      | StringValue s \<Rightarrow> s \<noteq> []
      | NumberValue n \<Rightarrow> n \<noteq> 0
      | BooleanValue b \<Rightarrow> b
      | NullValue \<Rightarrow> False)"

text \<open>
  What a plain object inherits: the string-keyed properties of \<open>Object.prototype\<close>. Read
  through an object whose prototype it is, \<open>__proto__\<close> yields \<open>Object.prototype\<close> itself,
  \<open>constructor\<close> the function \<open>Object\<close>, and the ten other names the method of that
  name.
\<close>

definition objectPrototype :: "string \<Rightarrow> jsvalue option" where
  "objectPrototype k =
     (if k = ''__proto__'' then Some (Builtin ''Object.prototype'')
      else if k = ''constructor'' then Some (Builtin ''Object'')
      else if k \<in> set [''hasOwnProperty'', ''isPrototypeOf'', ''propertyIsEnumerable'',
                        ''toLocaleString'', ''toString'', ''valueOf'', ''__defineGetter__'',
                        ''__defineSetter__'', ''__lookupGetter__'', ''__lookupSetter__'']
      then Some (Builtin (''Object.prototype.'' @ k))
      else None)"

type_synonym 'v object = "(string \<times> 'v) list"

abbreviation lookup :: "'v object \<Rightarrow> string \<Rightarrow> 'v option" where
  "lookup obj k \<equiv> map_of obj k"

datatype 'v slot = Undefined | Own 'v | Inherited jsvalue

definition read :: "'v object \<Rightarrow> string \<Rightarrow> 'v slot" where
  "read obj k =
     (case lookup obj k of
        Some v \<Rightarrow> Own v
      | None \<Rightarrow> (case objectPrototype k of Some b \<Rightarrow> Inherited b | None \<Rightarrow> Undefined))"

definition has_key :: "string \<Rightarrow> 'v object \<Rightarrow> bool" where
  "has_key k obj = (case read obj k of Undefined \<Rightarrow> False | _ \<Rightarrow> True)"

text \<open>
  \<open>obj[k] = v\<close>. For a name that is not inherited, or that is inherited as a writable
  data property (every name of \<open>objectPrototype\<close> but \<open>__proto__\<close>), the own property is
  replaced in place or added at the end (\<open>upsert\<close>). \<open>__proto__\<close> is an accessor: the
  assignment makes no own property (its setter does nothing with a primitive \<open>v\<close>, and
  with an object \<open>v\<close> replaces the prototype of \<open>obj\<close>, which the model does not track).
\<close>

fun upsert :: "string \<Rightarrow> 'v \<Rightarrow> 'v object \<Rightarrow> 'v object" where
  "upsert k v [] = [(k, v)]"
| "upsert k v ((k', v') # kvs) =
     (if k' = k then (k, v) # kvs else (k', v') # upsert k v kvs)"

definition assign :: "string \<Rightarrow> 'v \<Rightarrow> 'v object \<Rightarrow> 'v object" where
  "assign k v obj = (if k = ''__proto__'' then obj else upsert k v obj)"

subsection \<open>The configuration records\<close>

record proxy =
  target :: string

record route =
  path :: string
  methods :: "string list option"
  hosts :: "string list option"
  proxy :: proxy
  resource :: string
  anonymous :: "bool option"

record token =
  token :: string
  user :: string

record user =
  name :: string
  roles :: "string list option"
  admin :: "bool option"

record grant =
  resource :: string
  methods :: "string list option"

record role =
  name :: string
  grants :: "grant list"

datatype error =
  ConfigError string
  | TypeError
  | SyntaxError string
  | SystemError
  | YAMLError

text \<open>
  \<open>ConfigError\<close> is the class of app.js and carries its message. \<open>TypeError\<close> is what
  JavaScript throws on iterating or reading a property of \<open>undefined\<close> or \<open>null\<close>,
  \<open>SyntaxError\<close> what \<open>new RegExp\<close> throws on a pattern that does not compile,
  \<open>SystemError\<close> a rejected \<open>fs\<close> call (open, stat, readFile) and \<open>YAMLError\<close> a
  failed \<open>YAML.parse\<close>.
\<close>

text \<open>
  The engine's property read \<open>v[k]\<close> on a value that is not one of the model's own
  objects (a built-in object or function, a boxed string or number): its own and
  inherited properties are the engine's tables, not this repository's, and a parameter of
  the model, as \<open>new RegExp\<close> is. A read yields a value or \<open>undefined\<close> (\<open>None\<close>), or
  throws where the property is an accessor that throws.
\<close>

type_synonym engine = "jsvalue \<Rightarrow> string \<Rightarrow> error + jsvalue option"

type_synonym tokenIndex = "string object"
type_synonym userIndex = "user object"
type_synonym roleIndex = "role object"
type_synonym methodGrants = "bool object"
type_synonym resourceGrants = "methodGrants object"
type_synonym grantIndex = "resourceGrants object"

subsection \<open>Authentication and authorization\<close>

text \<open>
  \<open>authenticate(req)\<close>, lines 218-228. The loop over \<open>this.opts.authHeaders\<close> returns at
  the first header name that is \<open>in req.headers\<close>, own or inherited. When the value read
  under that name is truthy (a non-empty string; an inherited function) it returns
  \<open>this.tokenIndex[value]\<close>, which is again an own entry, an inherited value or
  \<open>undefined\<close>; when the value is falsy (the empty string) it returns \<open>undefined\<close>. It
  falls off the end, returning \<open>undefined\<close>, when no configured name is in the headers.
  A value that is not a string is turned into a property key by the engine
  (\<open>toPropertyKey\<close>, a parameter).
\<close>

fun authenticate ::
  "(jsvalue \<Rightarrow> string) \<Rightarrow> tokenIndex \<Rightarrow> string list \<Rightarrow> string object \<Rightarrow> string slot"
where
  "authenticate toPropertyKey tokenIndex [] headers = Undefined"
| "authenticate toPropertyKey tokenIndex (headerName # authHeaders) headers =
     (case read headers headerName of
        Undefined \<Rightarrow> authenticate toPropertyKey tokenIndex authHeaders headers
      | Own v \<Rightarrow> if v \<noteq> [] then read tokenIndex v else Undefined
      | Inherited b \<Rightarrow>
          if truthyValue b then read tokenIndex (toPropertyKey b) else Undefined)"

text \<open>
  Line 168 of \<open>serve\<close>, \<open>if (!user)\<close>, on what \<open>authenticate\<close> returned: the request is
  answered 401 when the value is falsy, and goes on to \<open>authorize\<close> otherwise.
\<close>

definition unauthenticated :: "string slot \<Rightarrow> bool" where
  "unauthenticated r =
     (case r of Undefined \<Rightarrow> True | Own u \<Rightarrow> u = [] | Inherited b \<Rightarrow> \<not> truthyValue b)"

text \<open>
  Lines 240-243 on an object of the grant index, \<open>byMethod['*']\<close> and
  \<open>!!byMethod[method]\<close>: the truthiness of what the read yields.
\<close>

definition truthySlot :: "bool slot \<Rightarrow> bool" where
  "truthySlot r = (case r of Undefined \<Rightarrow> False | Own v \<Rightarrow> v | Inherited b \<Rightarrow> truthyValue b)"

definition truthyRead :: "jsvalue option \<Rightarrow> bool" where
  "truthyRead r = (case r of None \<Rightarrow> False | Some v \<Rightarrow> truthyValue v)"

text \<open>
  The same two lines when \<open>this.grantIndex[user][resource]\<close> is not an object of the grant
  index but a value \<open>v\<close> reached through the prototype: both reads are the engine's.
\<close>

definition inheritedGrant :: "engine \<Rightarrow> jsvalue \<Rightarrow> string \<Rightarrow> error + bool" where
  "inheritedGrant member v method =
     (case member v ''*'' of
        Inl e \<Rightarrow> Inl e
      | Inr w \<Rightarrow>
          if truthyRead w then Inr True
          else (case member v method of Inl e \<Rightarrow> Inl e | Inr w' \<Rightarrow> Inr (truthyRead w')))"

text \<open>
  Line 231, \<open>this.userIndex[user] && this.userIndex[user].admin\<close>: an indexed user is an
  object, truthy, and its \<open>admin\<close> field is a boolean or absent; an inherited value is
  read for its property \<open>admin\<close> by the engine.
\<close>

definition isAdmin :: "engine \<Rightarrow> userIndex \<Rightarrow> string \<Rightarrow> error + bool" where
  "isAdmin member userIndex usr =
     (case read userIndex usr of
        Undefined \<Rightarrow> Inr False
      | Own u \<Rightarrow> Inr (admin u = Some True)
      | Inherited b \<Rightarrow>
          if truthyValue b
          then (case member b ''admin'' of Inl e \<Rightarrow> Inl e | Inr w \<Rightarrow> Inr (truthyRead w))
          else Inr False)"

text \<open>
  \<open>authorize(user, resource, method)\<close>, lines 230-244. Each of \<open>this.grantIndex[user]\<close>
  and \<open>this.grantIndex[user][resource]\<close> is an own object of the index, a value inherited
  from the prototype, or \<open>undefined\<close>. \<open>usr\<close> is the property key of the \<open>user\<close>
  argument: the name itself for a user name, and what the engine turns the value into
  when \<open>authenticate\<close> has returned an inherited value. The method is called from
  \<open>serve\<close> only, after \<open>start\<close> has awaited the first reload, so the two indices are
  objects, not \<open>null\<close>.
\<close>

definition authorize ::
  "engine \<Rightarrow> userIndex \<Rightarrow> grantIndex \<Rightarrow> string \<Rightarrow> string \<Rightarrow> string \<Rightarrow> error + bool"
where
  "authorize member userIndex grantIndex usr res method =
     (case isAdmin member userIndex usr of
        Inl e \<Rightarrow> Inl e
      | Inr True \<Rightarrow> Inr True
      | Inr False \<Rightarrow>
          (case read grantIndex usr of
             Undefined \<Rightarrow> Inr False
           | Own byResource \<Rightarrow>
               (case read byResource res of
                  Undefined \<Rightarrow> Inr False
                | Own byMethod \<Rightarrow>
                    Inr (if truthySlot (read byMethod ''*'') then True
                         else truthySlot (read byMethod method))
                | Inherited v \<Rightarrow>
                    if truthyValue v then inheritedGrant member v method else Inr False)
           | Inherited b \<Rightarrow>
               if \<not> truthyValue b then Inr False
               else (case member b res of
                       Inl e \<Rightarrow> Inl e
                     | Inr None \<Rightarrow> Inr False
                     | Inr (Some v) \<Rightarrow>
                         if truthyValue v then inheritedGrant member v method
                         else Inr False)))"

subsection \<open>Route matching\<close>

text \<open>
  \<open>new RegExp(pattern)\<close> is the JavaScript engine's, not this repository's: it is a
  parameter of the model. It either throws a \<open>SyntaxError\<close> with a message (\<open>Inl\<close>) or
  yields a compiled expression; applied to a subject, that gives the match array of
  \<open>subject.match(re)\<close> or \<open>null\<close> (\<open>None\<close>), and \<open>re.test(subject)\<close> is true exactly
  when there is a match (the expressions are built without flags).
\<close>

type_synonym regex = "string \<Rightarrow> string list option"
type_synonym regexp = "string \<Rightarrow> string + regex"

text \<open>The inner loop of lines 259-265: is some host pattern of the route matched?\<close>

fun isHostMatch :: "regexp \<Rightarrow> string list \<Rightarrow> string \<Rightarrow> error + bool" where
  "isHostMatch RegExp [] host = Inr False"
| "isHostMatch RegExp (hostPattern # hostPatterns) host =
     (case RegExp hostPattern of
        Inl msg \<Rightarrow> Inl (SyntaxError msg)
      | Inr hostRegex \<Rightarrow>
          if hostRegex host \<noteq> None then Inr True
          else isHostMatch RegExp hostPatterns host)"

text \<open>
  The loop of \<open>getRoute\<close>, lines 252-274. \<open>!route.methods\<close> and \<open>!route.hosts\<close> are true
  only when the field is absent (an array, even an empty one, is truthy);
  \<open>indexOf(method) > -1\<close> is membership. The result is the pair \<open>{route, matches}\<close>, or
  \<open>undefined\<close> (\<open>None\<close>) when the loop ends.
\<close>

fun getRoute_loop ::
  "regexp \<Rightarrow> route list \<Rightarrow> string \<Rightarrow> string \<Rightarrow> string \<Rightarrow> error + (route \<times> string list) option"
where
  "getRoute_loop RegExp [] method pth host = Inr None"
| "getRoute_loop RegExp (r # rs) method pth host =
     (if \<not> (case route.methods r of None \<Rightarrow> True | Some ms \<Rightarrow> method \<in> set ms)
      then getRoute_loop RegExp rs method pth host
      else
        case (case hosts r of None \<Rightarrow> Inr True | Some hs \<Rightarrow> isHostMatch RegExp hs host) of
          Inl e \<Rightarrow> Inl e
        | Inr False \<Rightarrow> getRoute_loop RegExp rs method pth host
        | Inr True \<Rightarrow>
            (case RegExp (path r) of
               Inl msg \<Rightarrow> Inl (SyntaxError msg)
             | Inr re \<Rightarrow>
                 (case re pth of
                    Some matches \<Rightarrow> Inr (Some (r, matches))
                  | None \<Rightarrow> getRoute_loop RegExp rs method pth host)))"

text \<open>
  \<open>getRoute(method, path, host)\<close>, lines 246-275. \<open>req.headers.host\<close> is a string or
  \<open>undefined\<close>; anything that is not a string becomes the empty string.
\<close>

definition getRoute ::
  "regexp \<Rightarrow> route list \<Rightarrow> string \<Rightarrow> string \<Rightarrow> string option \<Rightarrow> error + (route \<times> string list) option"
where
  "getRoute RegExp routes method pth host =
     getRoute_loop RegExp routes method pth (case host of None \<Rightarrow> [] | Some h \<Rightarrow> h)"

subsection \<open>Validators\<close>

fun validateHosts :: "regexp \<Rightarrow> string list \<Rightarrow> error + unit" where
  "validateHosts RegExp [] = Inr ()"
| "validateHosts RegExp (hostPattern # hostPatterns) =
     (if hostPattern = [] then Inl (ConfigError ''host must be a non-empty string'')
      else case RegExp hostPattern of
        Inl msg \<Rightarrow> Inl (ConfigError (''Invalid regex for host: '' @ msg))
      | Inr _ \<Rightarrow> validateHosts RegExp hostPatterns)"

text \<open>\<open>validateRoute(route)\<close>, lines 277-307.\<close>

definition validateRoute :: "regexp \<Rightarrow> route \<Rightarrow> error + unit" where
  "validateRoute RegExp r =
     (if path r = [] then Inl (ConfigError ''route.path must be a non-empty string'')
      else case RegExp (path r) of
        Inl msg \<Rightarrow> Inl (ConfigError (''Invalid regex for route.path: '' @ msg))
      | Inr _ \<Rightarrow>
          if target (proxy r) = []
          then Inl (ConfigError ''route.proxy.target must be a non-empty string'')
          else case hosts r of None \<Rightarrow> Inr () | Some hs \<Rightarrow> validateHosts RegExp hs)"

text \<open>\<open>validateToken(token)\<close>, lines 309-316.\<close>

definition validateToken :: "token \<Rightarrow> error + unit" where
  "validateToken t =
     (if token t = [] then Inl (ConfigError ''token.token must be a non-empty string'')
      else if user t = [] then Inl (ConfigError ''token.user must be a non-empty string'')
      else Inr ())"

text \<open>
  \<open>validateUser(user)\<close>, lines 318-337. The role names are checked only when the key
  \<open>roles\<close> is present: a user without \<open>roles\<close> passes.
\<close>

definition validateUser :: "user \<Rightarrow> error + unit" where
  "validateUser u =
     (if user.name u = [] then Inl (ConfigError ''user.name must be a non-empty string'')
      else case roles u of
        None \<Rightarrow> Inr ()
      | Some roleNames \<Rightarrow>
          if \<exists>roleName \<in> set roleNames. roleName = []
          then Inl (ConfigError ''user role name must be a non-empty string'')
          else Inr ())"

text \<open>\<open>validateRole(role)\<close>, lines 339-356.\<close>

definition validateRole :: "role \<Rightarrow> error + unit" where
  "validateRole r =
     (if role.name r = [] then Inl (ConfigError ''role.name must be a non-empty string'')
      else if \<exists>g \<in> set (grants r). grant.resource g = []
      then Inl (ConfigError ''grant.resource must be a non-empty string'')
      else Inr ())"

subsection \<open>Index builders\<close>

text \<open>
  \<open>getTokenIndex\<close>, \<open>getRoleIndex\<close> and \<open>getUserIndex\<close>, lines 452-485: one pass over the
  document, a \<open>ConfigError\<close> at the first key that is \<open>in\<close> the index built so far. An
  inherited name is \<open>in\<close> the empty index already, so a token, role or user of such a name
  is reported as a duplicate. Each loop takes the index built so far.
\<close>

fun getTokenIndex_loop :: "token list \<Rightarrow> tokenIndex \<Rightarrow> error + tokenIndex" where
  "getTokenIndex_loop [] index = Inr index"
| "getTokenIndex_loop (t # ts) index =
     (if has_key (token t) index
      then Inl (ConfigError (''Duplicate token found for user '' @ user t))
      else getTokenIndex_loop ts (assign (token t) (user t) index))"

definition getTokenIndex :: "token list \<Rightarrow> error + tokenIndex" where
  "getTokenIndex tokens = getTokenIndex_loop tokens []"

fun getRoleIndex_loop :: "role list \<Rightarrow> roleIndex \<Rightarrow> error + roleIndex" where
  "getRoleIndex_loop [] index = Inr index"
| "getRoleIndex_loop (r # rs) index =
     (if has_key (role.name r) index
      then Inl (ConfigError (''Duplicate role name found for '' @ role.name r))
      else getRoleIndex_loop rs (assign (role.name r) r index))"

definition getRoleIndex :: "role list \<Rightarrow> error + roleIndex" where
  "getRoleIndex rls = getRoleIndex_loop rls []"

fun getUserIndex_loop :: "user list \<Rightarrow> userIndex \<Rightarrow> error + userIndex" where
  "getUserIndex_loop [] index = Inr index"
| "getUserIndex_loop (u # us) index =
     (if has_key (user.name u) index
      then Inl (ConfigError (''Duplicate user name found for '' @ user.name u))
      else getUserIndex_loop us (assign (user.name u) u index))"

definition getUserIndex :: "user list \<Rightarrow> error + userIndex" where
  "getUserIndex users = getUserIndex_loop users []"

text \<open>
  \<open>getGrantIndex(userIndex, roleIndex)\<close>, lines 488-514, from the innermost loop outwards.
  \<open>addMethods\<close> is lines 503-505 on an own object \<open>index[userName][grant.resource]\<close>.
\<close>

fun addMethods :: "string list \<Rightarrow> methodGrants \<Rightarrow> methodGrants" where
  "addMethods [] byMethod = byMethod"
| "addMethods (method # ms) byMethod = addMethods ms (assign method True byMethod)"

text \<open>
  \<open>addGrant\<close> is the body of the loop over \<open>role.grants\<close> (lines 499-508), on the object
  \<open>index[userName]\<close>. When \<open>index[userName][grant.resource]\<close> is falsy, that is
  \<open>undefined\<close>, an empty object is stored under the resource; then each listed method is
  set in the resource's object, or the wildcard \<open>*\<close> when \<open>grant.methods\<close> is absent (an
  array, even an empty one, is truthy). When the resource is an inherited name the read
  yields the inherited built-in object, which is truthy: no own entry is made, and the
  assignments of lines 504 and 507 go to that built-in object, which every plain object
  of the process shares. The own properties of \<open>index[userName]\<close> are then unchanged,
  which is what the model returns; whether the engine accepts the assignment (it throws
  on a read-only property such as \<open>name\<close> of a function) and what later reads through
  the prototype see are not tracked.
\<close>

definition addGrant :: "grant \<Rightarrow> resourceGrants \<Rightarrow> resourceGrants" where
  "addGrant g byResource =
     (case read byResource (grant.resource g) of
        Inherited b \<Rightarrow> byResource
      | Undefined \<Rightarrow>
          assign (grant.resource g)
            (case grant.methods g of
               Some ms \<Rightarrow> addMethods ms []
             | None \<Rightarrow> assign ''*'' True [])
            byResource
      | Own byMethod \<Rightarrow>
          assign (grant.resource g)
            (case grant.methods g of
               Some ms \<Rightarrow> addMethods ms byMethod
             | None \<Rightarrow> assign ''*'' True byMethod)
            byResource)"

fun addGrants :: "grant list \<Rightarrow> resourceGrants \<Rightarrow> resourceGrants" where
  "addGrants [] byResource = byResource"
| "addGrants (g # gs) byResource = addGrants gs (addGrant g byResource)"

text \<open>
  \<open>addRoles\<close> is the loop over \<open>user.roles\<close> (lines 495-511). \<open>roleIndex[roleName]\<close> is
  \<open>undefined\<close> for a name that is neither indexed nor inherited, and the name is skipped.
  For an inherited name it is a built-in object: truthy, and without a property
  \<open>grants\<close>, so \<open>for (var grant of role.grants)\<close> iterates \<open>undefined\<close> and throws a
  \<open>TypeError\<close>.
\<close>

fun addRoles :: "roleIndex \<Rightarrow> string list \<Rightarrow> resourceGrants \<Rightarrow> error + resourceGrants" where
  "addRoles roleIndex [] byResource = Inr byResource"
| "addRoles roleIndex (roleName # roleNames) byResource =
     (case read roleIndex roleName of
        Undefined \<Rightarrow> addRoles roleIndex roleNames byResource
      | Own r \<Rightarrow> addRoles roleIndex roleNames (addGrants (grants r) byResource)
      | Inherited b \<Rightarrow>
          if truthyValue b then Inl TypeError
          else addRoles roleIndex roleNames byResource)"

text \<open>
  The loop over \<open>Object.entries(userIndex)\<close>, the own entries of the user index. An admin
  user is skipped before its roles are read. For any other user,
  \<open>for (var roleName of user.roles)\<close> throws a \<open>TypeError\<close> when \<open>user.roles\<close> is
  \<open>undefined\<close>, which is not iterable. The entry \<open>index[userName]\<close> is created empty and
  filled in place; here it is filled first and stored once, which gives the same object at
  the same position. (\<open>getUserIndex\<close> stores no inherited name, so \<open>userName\<close> is not
  \<open>__proto__\<close> in an index it has built.)
\<close>

fun getGrantIndex_loop :: "(string \<times> user) list \<Rightarrow> roleIndex \<Rightarrow> grantIndex \<Rightarrow> error + grantIndex" where
  "getGrantIndex_loop [] roleIndex index = Inr index"
| "getGrantIndex_loop ((userName, u) # entries) roleIndex index =
     (if admin u = Some True then getGrantIndex_loop entries roleIndex index
      else case roles u of
        None \<Rightarrow> Inl TypeError
      | Some roleNames \<Rightarrow>
          (case addRoles roleIndex roleNames [] of
             Inl e \<Rightarrow> Inl e
           | Inr byResource \<Rightarrow>
               getGrantIndex_loop entries roleIndex (assign userName byResource index)))"

definition getGrantIndex :: "userIndex \<Rightarrow> roleIndex \<Rightarrow> error + grantIndex" where
  "getGrantIndex userIndex roleIndex = getGrantIndex_loop userIndex roleIndex []"

subsection \<open>Defaults from the environment\<close>

text \<open>
  \<open>App.defaults(env)\<close>, lines 60-78, for the two ports. An environment variable is a
  string or absent. Unary \<open>+\<close> is JavaScript's ToNumber: \<open>NaN\<close> for \<open>undefined\<close>, the number
  for a decimal literal. ToNumber is modelled on strings of decimal digits (the empty
  string is 0); the other literals JavaScript accepts (signs, fractions, exponents, hex,
  surrounding blanks) are outside the model and no theorem below is about them. The
  result is the exact integer, which is the JavaScript number up to \<open>2^53\<close>; beyond, the
  engine rounds to a double.
\<close>

datatype number = NaN | Num int

definition digit :: "char \<Rightarrow> nat option" where
  "digit c = (let n = of_char c :: nat in if 48 \<le> n \<and> n \<le> 57 then Some (n - 48) else None)"

fun decimal :: "string \<Rightarrow> nat \<Rightarrow> number" where
  "decimal [] acc = Num (int acc)"
| "decimal (c # cs) acc = (case digit c of None \<Rightarrow> NaN | Some d \<Rightarrow> decimal cs (10 * acc + d))"

definition toNumber :: "string option \<Rightarrow> number" where
  "toNumber v = (case v of None \<Rightarrow> NaN | Some s \<Rightarrow> decimal s 0)"

text \<open>
  \<open>+env.HTTP_PORT || 8080\<close>: the number unless it is falsy (\<open>NaN\<close> or 0).
\<close>

definition port :: "string object \<Rightarrow> int" where
  "port env = (case toNumber (lookup env ''HTTP_PORT'') of
                 NaN \<Rightarrow> 8080 | Num n \<Rightarrow> if n = 0 then 8080 else n)"

text \<open>
  \<open>+env.METRICS_PORT | 8181\<close>: a single bar, the bitwise OR of the two operands after
  ToInt32 (\<open>NaN\<close> becomes 0, a number is reduced modulo \<open>2^32\<close> and read as two's
  complement).
\<close>

definition toInt32 :: "number \<Rightarrow> 32 word" where
  "toInt32 x = (case x of NaN \<Rightarrow> 0 | Num n \<Rightarrow> word_of_int n)"

definition metricsPort :: "string object \<Rightarrow> int" where
  "metricsPort env = sint (toInt32 (toNumber (lookup env ''METRICS_PORT'')) OR 8181)"

subsection \<open>The application state and the files on disk\<close>

text \<open>
  The fields of \<open>App\<close> that the reload reads or writes (lines 101-114), \<open>null\<close> being
  \<open>None\<close>, and two observable parts of the process beside them: the file handles that are
  open (\<open>fs.open\<close> adds one, \<open>close()\<close> removes it) and what has been logged
  (\<open>this.log('Config reloaded', ...)\<close> with the four lengths, \<open>error(err)\<close>). Times are
  milliseconds; \<open>mtimeMs\<close> and \<open>+new Date\<close> go through \<open>Math.max\<close>, \<open>==\<close> and a
  truthiness test only, so any linear order with a zero does, and \<open>int\<close> is used.
\<close>

datatype handle = routesHandle | usersHandle | rolesHandle | tokensHandle

datatype logEntry = ConfigReloaded nat nat nat nat | LoggedError error

record app =
  routes :: "route list option"
  users :: "user list option"
  roles :: "role list option"
  tokens :: "token list option"
  tokenIndex :: "tokenIndex option"
  roleIndex :: "roleIndex option"
  userIndex :: "userIndex option"
  grantIndex :: "grantIndex option"
  lastReloadTime :: "int option"
  lastReloadMTime :: "int option"
  lastReloadErrorTime :: "int option"
  isReloading :: bool
  openHandles :: "handle list"
  logged :: "logEntry list"

text \<open>A number or \<open>null\<close> in a condition: \<open>null\<close>, and 0, are falsy.\<close>

definition truthy :: "int option \<Rightarrow> bool" where
  "truthy v = (case v of None \<Rightarrow> False | Some n \<Rightarrow> n \<noteq> 0)"

text \<open>
  What one reload finds on disk, per file: whether \<open>fs.open\<close> resolves, the \<open>mtimeMs\<close>
  of \<open>handle.stat()\<close> (\<open>None\<close> when it rejects) and the outcome of
  \<open>YAML.parse(await handle.readFile('utf-8'))\<close>: an error thrown by either call, \<open>null\<close>
  (an empty document), a value whose top-level key is missing or is not an array, or the
  sequence under that key.
\<close>

datatype 'a document = Unreadable error | Null | NoSequence | Sequence "'a list"

record 'a configFile =
  opens :: bool
  mtimeMs :: "int option"
  parsed :: "'a document"

record disk =
  routesFile :: "route configFile"
  usersFile :: "user configFile"
  rolesFile :: "role configFile"
  tokensFile :: "token configFile"

subsection \<open>Reloading the configuration\<close>

definition bind :: "error + 'a \<Rightarrow> ('a \<Rightarrow> error + 'b) \<Rightarrow> error + 'b" where
  "bind r f = (case r of Inl e \<Rightarrow> Inl e | Inr x \<Rightarrow> f x)"

text \<open>\<open>xs.forEach(x => validate(x))\<close>: the first throw ends the loop.\<close>

fun forEach :: "('a \<Rightarrow> error + unit) \<Rightarrow> 'a list \<Rightarrow> error + unit" where
  "forEach f [] = Inr ()"
| "forEach f (x # xs) = (case f x of Inl e \<Rightarrow> Inl e | Inr _ \<Rightarrow> forEach f xs)"

text \<open>
  Lines 382-385 (and 388-391, 395-398, 402-405): reading \<open>obj.key\<close> of \<open>null\<close> throws a
  \<open>TypeError\<close>; a missing key or a value that is not an array is a \<open>ConfigError\<close>.
\<close>

definition sequenceOf :: "string \<Rightarrow> 'a document \<Rightarrow> error + 'a list" where
  "sequenceOf key doc =
     (case doc of
        Unreadable e \<Rightarrow> Inl e
      | Null \<Rightarrow> Inl TypeError
      | NoSequence \<Rightarrow> Inl (ConfigError (''missing key '' @ key @ '' or not array''))
      | Sequence xs \<Rightarrow> Inr xs)"

text \<open>
  Lines 382-409: parse, validate and index the four documents in the order of the source.
  The results are local constants (\<open>routesObj.routes\<close>, \<open>userIndex\<close>, ...); nothing of
  \<open>this\<close> is written here, so a throw leaves the state as it was.
\<close>

record built =
  builtRoutes :: "route list"
  builtUsers :: "user list"
  builtRoles :: "role list"
  builtTokens :: "token list"
  builtTokenIndex :: tokenIndex
  builtRoleIndex :: roleIndex
  builtUserIndex :: userIndex
  builtGrantIndex :: grantIndex

definition buildConfig :: "regexp \<Rightarrow> disk \<Rightarrow> error + built" where
  "buildConfig RegExp d =
     bind (sequenceOf ''routes'' (parsed (routesFile d))) (\<lambda>rs.
     bind (forEach (validateRoute RegExp) rs) (\<lambda>_.
     bind (sequenceOf ''users'' (parsed (usersFile d))) (\<lambda>us.
     bind (forEach validateUser us) (\<lambda>_.
     bind (getUserIndex us) (\<lambda>uix.
     bind (sequenceOf ''roles'' (parsed (rolesFile d))) (\<lambda>rls.
     bind (forEach validateRole rls) (\<lambda>_.
     bind (getRoleIndex rls) (\<lambda>rix.
     bind (sequenceOf ''tokens'' (parsed (tokensFile d))) (\<lambda>ts.
     bind (forEach validateToken ts) (\<lambda>_.
     bind (getTokenIndex ts) (\<lambda>tix.
     bind (getGrantIndex uix rix) (\<lambda>gix.
     Inr \<lparr>builtRoutes = rs, builtUsers = us, builtRoles = rls, builtTokens = ts,
          builtTokenIndex = tix, builtRoleIndex = rix, builtUserIndex = uix,
          builtGrantIndex = gix\<rparr>))))))))))))"

text \<open>
  Lines 411-426: the eight assignments to \<open>this\<close>, run to the end without a throw, and the
  log line with the four lengths.
\<close>

definition storeConfig :: "built \<Rightarrow> app \<Rightarrow> app" where
  "storeConfig b s =
     s\<lparr>routes := Some (builtRoutes b), users := Some (builtUsers b),
       roles := Some (builtRoles b), tokens := Some (builtTokens b),
       tokenIndex := Some (builtTokenIndex b), roleIndex := Some (builtRoleIndex b),
       userIndex := Some (builtUserIndex b), grantIndex := Some (builtGrantIndex b),
       logged := logged s @
         [ConfigReloaded (length (builtRoutes b)) (length (builtRoles b))
            (length (builtUsers b)) (length (builtTokens b))]\<rparr>"

text \<open>Lines 369-374: the four \<open>stat\<close> calls in order, then \<open>Math.max\<close>.\<close>

definition maxMTime :: "disk \<Rightarrow> error + int" where
  "maxMTime d =
     (case mtimeMs (routesFile d) of None \<Rightarrow> Inl SystemError | Some a \<Rightarrow>
      case mtimeMs (usersFile d) of None \<Rightarrow> Inl SystemError | Some b \<Rightarrow>
      case mtimeMs (rolesFile d) of None \<Rightarrow> Inl SystemError | Some c \<Rightarrow>
      case mtimeMs (tokensFile d) of None \<Rightarrow> Inl SystemError | Some e \<Rightarrow>
        Inr (max (max a b) (max c e)))"

text \<open>
  The condition of line 376, \<open>this.lastReloadMTime && this.lastReloadMTime == maxMTime\<close>:
  the recorded time is truthy and equal to the maximum.
\<close>

definition sameMTime :: "app \<Rightarrow> int \<Rightarrow> bool" where
  "sameMTime s m = (truthy (lastReloadMTime s) \<and> lastReloadMTime s = Some m)"

text \<open>
  The \<open>try\<close> block, lines 367-427: the error thrown, if any, and the state at that point.
  It returns at line 377 when the condition of line 376 holds; line 380 records the
  maximum before anything is parsed.
\<close>

definition tryBlock :: "regexp \<Rightarrow> disk \<Rightarrow> app \<Rightarrow> error option \<times> app" where
  "tryBlock RegExp d s =
     (case maxMTime d of
        Inl e \<Rightarrow> (Some e, s)
      | Inr m \<Rightarrow>
          if sameMTime s m then (None, s)
          else
            let s' = s\<lparr>lastReloadMTime := Some m\<rparr>
            in case buildConfig RegExp d of
                 Inl e \<Rightarrow> (Some e, s')
               | Inr b \<Rightarrow> (None, storeConfig b s'))"

text \<open>
  The \<open>catch\<close> block, lines 428-436: the error is thrown again when no reload has
  completed before (\<open>this.lastReloadTime\<close> falsy), and logged otherwise.
\<close>

definition catchBlock :: "int \<Rightarrow> error \<Rightarrow> app \<Rightarrow> error option \<times> app" where
  "catchBlock now err s =
     (let s' = s\<lparr>lastReloadErrorTime := Some now\<rparr>
      in if \<not> truthy (lastReloadTime s') then (Some err, s')
         else (None, s'\<lparr>logged := logged s' @ [LoggedError err]\<rparr>))"

text \<open>Lines 440-443: the four \<open>close()\<close> calls, each releasing one handle.\<close>

definition closeAll :: "handle list \<Rightarrow> handle list" where
  "closeAll hs =
     remove1 tokensHandle (remove1 rolesHandle (remove1 usersHandle (remove1 routesHandle hs)))"

text \<open>The \<open>finally\<close> block, lines 438-448.\<close>

definition finallyBlock :: "int \<Rightarrow> app \<Rightarrow> app" where
  "finallyBlock now s =
     s\<lparr>openHandles := closeAll (openHandles s),
       isReloading := False,
       lastReloadTime := Some now,
       lastReloadErrorTime := None\<rparr>"

text \<open>
  Lines 362-365: the four \<open>fs.open\<close> calls, before the \<open>try\<close>. A rejected open throws out
  of \<open>reloadConfig\<close> at once, with the handles opened so far.
\<close>

definition openAll :: "disk \<Rightarrow> app \<Rightarrow> error option \<times> app" where
  "openAll d s =
     (if \<not> opens (routesFile d) then (Some SystemError, s)
      else let s1 = s\<lparr>openHandles := openHandles s @ [routesHandle]\<rparr> in
      if \<not> opens (usersFile d) then (Some SystemError, s1)
      else let s2 = s1\<lparr>openHandles := openHandles s1 @ [usersHandle]\<rparr> in
      if \<not> opens (rolesFile d) then (Some SystemError, s2)
      else let s3 = s2\<lparr>openHandles := openHandles s2 @ [rolesHandle]\<rparr> in
      if \<not> opens (tokensFile d) then (Some SystemError, s3)
      else (None, s3\<lparr>openHandles := openHandles s3 @ [tokensHandle]\<rparr>))"

text \<open>
  \<open>reloadConfig()\<close>, lines 358-449, at clock reading \<open>now\<close>: the error with which the
  returned promise rejects, if any, and the state afterwards.
\<close>

definition reloadConfig :: "regexp \<Rightarrow> int \<Rightarrow> disk \<Rightarrow> app \<Rightarrow> error option \<times> app" where
  "reloadConfig RegExp now d s =
     (case openAll d (s\<lparr>isReloading := True\<rparr>) of
        (Some e, s1) \<Rightarrow> (Some e, s1)
      | (None, s1) \<Rightarrow>
          (case tryBlock RegExp d s1 of
             (None, s2) \<Rightarrow> (None, finallyBlock now s2)
           | (Some e, s2) \<Rightarrow>
               (case catchBlock now e s2 of (thrown, s3) \<Rightarrow> (thrown, finallyBlock now s3))))"

text \<open>
  The timer callback of \<open>start\<close>, lines 200-204: a tick reloads unless \<open>isReloading\<close> is
  set.
\<close>

definition tick :: "regexp \<Rightarrow> int \<Rightarrow> disk \<Rightarrow> app \<Rightarrow> error option \<times> app" where
  "tick RegExp now d s = (if \<not> isReloading s then reloadConfig RegExp now d s else (None, s))"

section \<open>Properties\<close>

subsection \<open>Predicates of the specification\<close>

text \<open>
  The three tests of the route matcher as the specification words them: the route's
  methods are absent or contain the request's method; its hosts are absent or some host
  pattern matches the value of the Host header, the empty string when the header is
  missing; its path pattern matches the request path.
\<close>

definition matches :: "regexp \<Rightarrow> string \<Rightarrow> string \<Rightarrow> bool" where
  "matches RegExp pattern subject =
     (case RegExp pattern of Inl _ \<Rightarrow> False | Inr re \<Rightarrow> re subject \<noteq> None)"

definition satisfies :: "regexp \<Rightarrow> string \<Rightarrow> string \<Rightarrow> string option \<Rightarrow> route \<Rightarrow> bool" where
  "satisfies RegExp method pth host r =
     ((case route.methods r of None \<Rightarrow> True | Some ms \<Rightarrow> method \<in> set ms) \<and>
      (case hosts r of
         None \<Rightarrow> True
       | Some hs \<Rightarrow> \<exists>p \<in> set hs. matches RegExp p (case host of None \<Rightarrow> [] | Some h \<Rightarrow> h)) \<and>
      matches RegExp (path r) pth)"

text \<open>
  The snapshot is the routes list and the four indices that requests are served from.
  \<open>allOpen\<close> says that \<open>fs.open\<close> resolves for each of the four files.
\<close>

definition snapshot ::
  "app \<Rightarrow> route list option \<times> tokenIndex option \<times> userIndex option \<times> roleIndex option \<times>
     grantIndex option"
where
  "snapshot s = (routes s, tokenIndex s, userIndex s, roleIndex s, grantIndex s)"

definition allOpen :: "disk \<Rightarrow> bool" where
  "allOpen d =
     (opens (routesFile d) \<and> opens (usersFile d) \<and> opens (rolesFile d) \<and> opens (tokensFile d))"

subsection \<open>Concrete inputs\<close>

text \<open>
  The inputs at which the theorems below are instantiated. \<open>literalRegExp\<close> stands in for
  the engine where a concrete one is needed: the pattern \<open>(\<close> does not compile, and any
  other pattern matches the subjects that start with it, the match array holding the
  matched text.
\<close>

definition literalRegExp :: regexp where
  "literalRegExp pattern =
     (if pattern = ''('' then Inl ''Unterminated group''
      else Inr (\<lambda>subject.
             if take (length pattern) subject = pattern then Some [pattern] else None))"

text \<open>
  \<open>exampleMember\<close> stands in for the engine's property reads where a concrete one is
  needed. It gives the reads made in the examples as the engine gives them: the function
  \<open>Object\<close> has the property \<open>name\<close>, the string \<open>Object\<close>, and no property \<open>admin\<close>; a
  string has its \<open>length\<close> and no property \<open>*\<close>. Every other read is \<open>undefined\<close>
  in it.
\<close>

definition exampleMember :: engine where
  "exampleMember v k =
     (case v of
        Builtin n \<Rightarrow>
          if n = ''Object'' \<and> k = ''name'' then Inr (Some (StringValue ''Object''))
          else Inr None
      | StringValue s \<Rightarrow>
          if k = ''length'' then Inr (Some (NumberValue (int (length s)))) else Inr None
      | _ \<Rightarrow> Inr None)"

definition alice :: user where
  "alice = \<lparr>user.name = ''alice'', user.roles = None, user.admin = Some True\<rparr>"

definition john :: user where
  "john = \<lparr>user.name = ''john'', user.roles = Some [''reader'', ''ghost''], user.admin = None\<rparr>"

definition bob :: user where
  "bob = \<lparr>user.name = ''bob'', user.roles = None, user.admin = None\<rparr>"

definition reader :: role where
  "reader = \<lparr>role.name = ''reader'',
              grants = [\<lparr>grant.resource = ''api'', grant.methods = Some [''GET'']\<rparr>,
                        \<lparr>grant.resource = ''files'', grant.methods = None\<rparr>]\<rparr>"

definition exampleUsers :: userIndex where
  "exampleUsers = [(''alice'', alice), (''john'', john)]"

definition exampleRoles :: roleIndex where
  "exampleRoles = [(''reader'', reader)]"

definition exampleGrants :: grantIndex where
  "exampleGrants = [(''john'', [(''api'', [(''GET'', True)]), (''files'', [(''*'', True)])])]"

definition exampleTokens :: tokenIndex where
  "exampleTokens = [(''T1'', ''john''), (''T2'', ''alice'')]"

definition publicRoute :: route where
  "publicRoute = \<lparr>path = ''/public'', route.methods = None, hosts = None,
                   proxy = \<lparr>target = ''http://upstream''\<rparr>, route.resource = ''pub'',
                   anonymous = Some True\<rparr>"

definition hostRoute :: route where
  "hostRoute = \<lparr>path = ''/hostroute'', route.methods = None,
                 hosts = Some [''host1.example'', ''host2.example''],
                 proxy = \<lparr>target = ''http://upstream''\<rparr>, route.resource = ''hr'',
                 anonymous = Some True\<rparr>"

definition apiRoute :: route where
  "apiRoute = \<lparr>path = ''/'', route.methods = Some [''GET'', ''PUT''], hosts = None,
                proxy = \<lparr>target = ''http://upstream''\<rparr>, route.resource = ''api'',
                anonymous = None\<rparr>"

definition exampleRoutes :: "route list" where
  "exampleRoutes = [publicRoute, hostRoute, apiRoute]"

text \<open>
  The state the constructor leaves (lines 101-114), a disk with four well-formed
  documents, and the state after the reload that \<open>start\<close> awaits.
\<close>

definition newApp :: app where
  "newApp = \<lparr>routes = None, users = None, app.roles = None, tokens = None,
              tokenIndex = None, roleIndex = None, userIndex = None, grantIndex = None,
              lastReloadTime = None, lastReloadMTime = None, lastReloadErrorTime = None,
              isReloading = False, openHandles = [], logged = []\<rparr>"

definition goodDisk :: disk where
  "goodDisk =
     \<lparr>routesFile = \<lparr>opens = True, mtimeMs = Some 1000, parsed = Sequence exampleRoutes\<rparr>,
      usersFile = \<lparr>opens = True, mtimeMs = Some 1000, parsed = Sequence [alice, john]\<rparr>,
      rolesFile = \<lparr>opens = True, mtimeMs = Some 1000, parsed = Sequence [reader]\<rparr>,
      tokensFile = \<lparr>opens = True, mtimeMs = Some 1000,
                    parsed = Sequence [\<lparr>token = ''T1'', user = ''john''\<rparr>,
                                       \<lparr>token = ''T2'', user = ''alice''\<rparr>]\<rparr>\<rparr>"

definition loadedApp :: app where
  "loadedApp = snd (reloadConfig literalRegExp 5000 goodDisk newApp)"

text \<open>
  Later states of the disk. \<open>brokenDisk\<close>: the routes file has been rewritten (a newer
  mtime) with text that does not parse. \<open>repairedDisk\<close>: the same mtimes as
  \<open>brokenDisk\<close>, with a routes document that parses. \<open>touchedDisk\<close>: the repaired
  document with a newer mtime. \<open>usersMissingDisk\<close>: the users file cannot be opened.
  \<open>failedApp\<close> is the running application after a reload has met \<open>brokenDisk\<close>.
\<close>

definition brokenDisk :: disk where
  "brokenDisk =
     goodDisk\<lparr>routesFile :=
       \<lparr>opens = True, mtimeMs = Some 2000, parsed = Unreadable YAMLError\<rparr>\<rparr>"

definition repairedDisk :: disk where
  "repairedDisk =
     goodDisk\<lparr>routesFile :=
       \<lparr>opens = True, mtimeMs = Some 2000, parsed = Sequence [publicRoute]\<rparr>\<rparr>"

definition touchedDisk :: disk where
  "touchedDisk =
     goodDisk\<lparr>routesFile :=
       \<lparr>opens = True, mtimeMs = Some 3000, parsed = Sequence [publicRoute]\<rparr>\<rparr>"

definition usersMissingDisk :: disk where
  "usersMissingDisk =
     goodDisk\<lparr>usersFile :=
       \<lparr>opens = False, mtimeMs = None, parsed = Unreadable SystemError\<rparr>\<rparr>"

definition failedApp :: app where
  "failedApp = snd (reloadConfig literalRegExp 6000 brokenDisk loadedApp)"

text \<open>
  Files whose modification time is the epoch, \<open>mtimeMs = 0\<close> (images and archives built
  with zeroed timestamps have them): the documents of \<open>goodDisk\<close>, the application
  started on them, and the same disk after the routes document has been replaced with the
  timestamps kept.
\<close>

definition epochDisk :: disk where
  "epochDisk =
     \<lparr>routesFile = \<lparr>opens = True, mtimeMs = Some 0, parsed = Sequence exampleRoutes\<rparr>,
      usersFile = \<lparr>opens = True, mtimeMs = Some 0, parsed = Sequence [alice, john]\<rparr>,
      rolesFile = \<lparr>opens = True, mtimeMs = Some 0, parsed = Sequence [reader]\<rparr>,
      tokensFile = \<lparr>opens = True, mtimeMs = Some 0,
                    parsed = Sequence [\<lparr>token = ''T1'', user = ''john''\<rparr>,
                                       \<lparr>token = ''T2'', user = ''alice''\<rparr>]\<rparr>\<rparr>"

definition epochDiskEdited :: disk where
  "epochDiskEdited =
     epochDisk\<lparr>routesFile :=
       \<lparr>opens = True, mtimeMs = Some 0, parsed = Sequence [publicRoute]\<rparr>\<rparr>"

definition epochApp :: app where
  "epochApp = snd (reloadConfig literalRegExp 5000 epochDisk newApp)"

subsection \<open>Authorization\<close>

lemma objectPrototype_star: "objectPrototype ''*'' = None"
  by (simp add: objectPrototype_def)

lemma read_own_name:
  "objectPrototype k = None \<Longrightarrow>
   read obj k = (case lookup obj k of None \<Rightarrow> Undefined | Some v \<Rightarrow> Own v)"
  by (simp add: read_def split: option.splits)

text \<open>
  For a user, a resource and a method none of which is an inherited name, and with
  \<open>Object.prototype\<close> as the engine starts it, \<open>authorize\<close> does not throw, reads own
  entries only and asks the engine nothing: it allows an indexed user whose \<open>admin\<close> is
  \<open>true\<close>, and otherwise allows exactly when the user's and the resource's entries exist
  and \<open>*\<close> or the method is set there.
\<close>

lemma authorize_own_names:
  assumes "objectPrototype usr = None" and "objectPrototype res = None"
    and "objectPrototype m = None"
  shows "authorize member ui gi usr res m =
         Inr ((\<exists>u. lookup ui usr = Some u \<and> admin u = Some True) \<or>
              (\<exists>byResource byMethod.
                 lookup gi usr = Some byResource \<and> lookup byResource res = Some byMethod \<and>
                 (lookup byMethod ''*'' = Some True \<or> lookup byMethod m = Some True)))"
proof -
  have admin: "isAdmin member ui usr =
      Inr (\<exists>u. lookup ui usr = Some u \<and> admin u = Some True)"
    using assms(1) by (simp add: isAdmin_def read_own_name split: option.splits)
  show ?thesis
  proof (cases "\<exists>u. lookup ui usr = Some u \<and> admin u = Some True")
    case True
    with admin show ?thesis by (simp add: authorize_def)
  next
    case False
    with admin assms show ?thesis
      by (auto simp: authorize_def read_own_name truthySlot_def objectPrototype_star
          split: option.splits)
  qed
qed

text \<open>
  C1. \<open>john\<close> is not an admin, and his entry for the resource \<open>api\<close> holds the method
  \<open>GET\<close> alone: neither \<open>*\<close> nor \<open>constructor\<close> is set there. \<open>authorize\<close> still allows
  him the method \<open>constructor\<close> on \<open>api\<close>, whatever the engine's tables: the read of
  line 243 yields the function \<open>Object\<close>, inherited from \<open>Object.prototype\<close>, which is
  truthy. The method \<open>PUT\<close>, not an inherited name, is denied.
\<close>

theorem authorize_inherited_method:
  "lookup exampleUsers ''john'' = Some john \<and> admin john = None \<and>
   lookup exampleGrants ''john'' =
     Some [(''api'', [(''GET'', True)]), (''files'', [(''*'', True)])] \<and>
   lookup [(''GET'', True)] ''constructor'' = None \<and>
   authorize member exampleUsers exampleGrants ''john'' ''api'' ''constructor'' = Inr True \<and>
   authorize member exampleUsers exampleGrants ''john'' ''api'' ''PUT'' = Inr False"
  by (simp add: authorize_def isAdmin_def read_def objectPrototype_def truthySlot_def
      truthyValue_def exampleUsers_def exampleGrants_def alice_def john_def)

text \<open>
  C10. The name \<open>constructor\<close> has no entry in the user index and none in the grant
  index. \<open>authorize\<close>, asked for the resource \<open>name\<close> and the method \<open>length\<close>, answers
  \<open>true\<close>: \<open>this.grantIndex[user]\<close> is the inherited function \<open>Object\<close>, its property
  \<open>name\<close> is the string \<open>Object\<close>, and the \<open>length\<close> of that string is 6, truthy.
\<close>

theorem authorize_inherited_user:
  "lookup exampleUsers ''constructor'' = None \<and> lookup exampleGrants ''constructor'' = None \<and>
   authorize exampleMember exampleUsers exampleGrants ''constructor'' ''name'' ''length'' =
     Inr True"
  by (simp add: authorize_def isAdmin_def inheritedGrant_def read_def objectPrototype_def
      truthyRead_def truthyValue_def exampleMember_def exampleUsers_def exampleGrants_def)

subsection \<open>Authentication\<close>

text \<open>
  When the first configured header name that the request carries, and the value it
  carries, are not inherited names (and no configured name before it is), \<open>authenticate\<close>
  returns \<open>undefined\<close> for an empty value and the token index's own entry for the
  value otherwise, whatever names and headers follow.
\<close>

lemma authenticate_own_names:
  assumes "authHeaders = absent @ headerName # later"
    and "\<forall>a \<in> set absent. lookup headers a = None \<and> objectPrototype a = None"
    and "lookup headers headerName = Some v" and "objectPrototype v = None"
  shows "authenticate toPropertyKey ti authHeaders headers =
         (if v = [] then Undefined
          else case lookup ti v of None \<Rightarrow> Undefined | Some u \<Rightarrow> Own u)"
  using assms
  by (induction absent arbitrary: authHeaders) (auto simp: read_def split: option.splits)

text \<open>
  C2. The request carries \<open>x-authorization: constructor\<close>, the one configured header.
  No token \<open>constructor\<close> is in the token index, yet \<open>authenticate\<close> does not return
  \<open>undefined\<close>: it returns the function \<open>Object\<close>, which \<open>this.tokenIndex[...]\<close> inherits,
  and \<open>serve\<close> takes that truthy value for a user. For the value \<open>unknown\<close>, not an
  inherited name, it returns \<open>undefined\<close>.
\<close>

theorem authenticate_inherited_token:
  "lookup exampleTokens ''constructor'' = None \<and>
   authenticate toPropertyKey exampleTokens [''x-authorization'']
     [(''x-authorization'', ''constructor'')] = Inherited (Builtin ''Object'') \<and>
   \<not> unauthenticated (authenticate toPropertyKey exampleTokens [''x-authorization'']
         [(''x-authorization'', ''constructor'')]) \<and>
   authenticate toPropertyKey exampleTokens [''x-authorization'']
     [(''x-authorization'', ''unknown'')] = Undefined \<and>
   unauthenticated (authenticate toPropertyKey exampleTokens [''x-authorization'']
     [(''x-authorization'', ''unknown'')])"
  by (simp add: read_def objectPrototype_def unauthenticated_def truthyValue_def
      exampleTokens_def)

subsection \<open>Route matching\<close>

lemma validateHosts_isHostMatch:
  "validateHosts RegExp hs = Inr () \<Longrightarrow>
   isHostMatch RegExp hs host = Inr (\<exists>p \<in> set hs. matches RegExp p host)"
  by (induction hs) (auto simp: matches_def split: if_splits sum.splits)

lemma validateRoute_path:
  "validateRoute RegExp r = Inr () \<Longrightarrow> \<exists>re. RegExp (path r) = Inr re"
  by (auto simp: validateRoute_def split: if_splits sum.splits)

lemma validateRoute_hosts:
  "validateRoute RegExp r = Inr () \<Longrightarrow> hosts r = Some hs \<Longrightarrow> validateHosts RegExp hs = Inr ()"
  by (auto simp: validateRoute_def split: if_splits sum.splits)

lemma getRoute_loop_skip:
  assumes "validateRoute RegExp r = Inr ()" and "\<not> satisfies RegExp method pth host r"
  shows "getRoute_loop RegExp (r # rs) method pth (case host of None \<Rightarrow> [] | Some h \<Rightarrow> h) =
         getRoute_loop RegExp rs method pth (case host of None \<Rightarrow> [] | Some h \<Rightarrow> h)"
proof -
  obtain re where re: "RegExp (path r) = Inr re"
    using validateRoute_path [OF assms(1)] by blast
  show ?thesis
  proof (cases "hosts r")
    case None
    with assms(2) re show ?thesis
      by (auto simp: satisfies_def matches_def split: option.splits)
  next
    case (Some hs)
    have "isHostMatch RegExp hs (case host of None \<Rightarrow> [] | Some h \<Rightarrow> h) =
          Inr (\<exists>p \<in> set hs. matches RegExp p (case host of None \<Rightarrow> [] | Some h \<Rightarrow> h))"
      using validateRoute_hosts [OF assms(1) Some] by (rule validateHosts_isHostMatch)
    with assms(2) re Some show ?thesis
      by (cases "re pth")
        (auto simp: satisfies_def matches_def [of RegExp "path r"]
          split: option.splits bool.splits)
  qed
qed

lemma getRoute_loop_hit:
  assumes "validateRoute RegExp r = Inr ()" and "satisfies RegExp method pth host r"
  shows "\<exists>re m. RegExp (path r) = Inr re \<and> re pth = Some m \<and>
         getRoute_loop RegExp (r # rs) method pth (case host of None \<Rightarrow> [] | Some h \<Rightarrow> h) =
         Inr (Some (r, m))"
proof -
  obtain re where re: "RegExp (path r) = Inr re"
    using validateRoute_path [OF assms(1)] by blast
  with assms(2) obtain m where m: "re pth = Some m"
    by (auto simp: satisfies_def matches_def)
  have "getRoute_loop RegExp (r # rs) method pth (case host of None \<Rightarrow> [] | Some h \<Rightarrow> h) =
         Inr (Some (r, m))"
  proof (cases "hosts r")
    case None
    with assms(2) re m show ?thesis
      by (auto simp: satisfies_def split: option.splits bool.splits)
  next
    case (Some hs)
    have "isHostMatch RegExp hs (case host of None \<Rightarrow> [] | Some h \<Rightarrow> h) =
          Inr (\<exists>p \<in> set hs. matches RegExp p (case host of None \<Rightarrow> [] | Some h \<Rightarrow> h))"
      using validateRoute_hosts [OF assms(1) Some] by (rule validateHosts_isHostMatch)
    with assms(2) re m Some show ?thesis
      by (auto simp: satisfies_def split: option.splits bool.splits)
  qed
  with re m show ?thesis by blast
qed

text \<open>
  C3. For a routes list that passed \<open>validateRoute\<close> (as every list a reload stores has),
  and every method, path and Host value: \<open>getRoute\<close> returns none when no route satisfies
  the three tests, and otherwise the first route in declared order that does, with the
  match array of its path pattern. A route after it is never returned, whether or not it
  would match too.
\<close>

theorem getRoute_first_match:
  assumes "\<forall>r \<in> set rts. validateRoute RegExp r = Inr ()"
  shows "((\<forall>r \<in> set rts. \<not> satisfies RegExp method pth host r) \<longrightarrow>
            getRoute RegExp rts method pth host = Inr None) \<and>
         (\<forall>earlier r later.
            rts = earlier @ r # later \<and>
            (\<forall>r' \<in> set earlier. \<not> satisfies RegExp method pth host r') \<and>
            satisfies RegExp method pth host r \<longrightarrow>
            (\<exists>re m. RegExp (path r) = Inr re \<and> re pth = Some m \<and>
                    getRoute RegExp rts method pth host = Inr (Some (r, m))))"
proof (intro conjI impI allI)
  assume "\<forall>r \<in> set rts. \<not> satisfies RegExp method pth host r"
  with assms show "getRoute RegExp rts method pth host = Inr None"
    unfolding getRoute_def
  proof (induction rts)
    case Nil
    then show ?case by simp
  next
    case (Cons r rs)
    then show ?case using getRoute_loop_skip [of RegExp r "method" pth host rs] by simp
  qed
next
  fix earlier r later
  assume "rts = earlier @ r # later \<and>
          (\<forall>r' \<in> set earlier. \<not> satisfies RegExp method pth host r') \<and>
          satisfies RegExp method pth host r"
  with assms show "\<exists>re m. RegExp (path r) = Inr re \<and> re pth = Some m \<and>
                    getRoute RegExp rts method pth host = Inr (Some (r, m))"
    unfolding getRoute_def
  proof (induction earlier arbitrary: rts)
    case Nil
    then show ?case using getRoute_loop_hit [of RegExp r "method" pth host later] by simp
  next
    case (Cons e es)
    then show ?case
      using getRoute_loop_skip [of RegExp e "method" pth host "es @ r # later"] by simp
  qed
qed

theorem getRoute_first_match_witness:
  "validateRoute literalRegExp publicRoute = Inr () \<and>
   validateRoute literalRegExp hostRoute = Inr () \<and>
   validateRoute literalRegExp apiRoute = Inr () \<and>
   satisfies literalRegExp ''GET'' ''/public/data'' None publicRoute \<and>
   satisfies literalRegExp ''GET'' ''/public/data'' None apiRoute \<and>
   getRoute literalRegExp exampleRoutes ''GET'' ''/public/data'' None =
     Inr (Some (publicRoute, [''/public''])) \<and>
   \<not> satisfies literalRegExp ''HEAD'' ''/hostroute'' None publicRoute \<and>
   \<not> satisfies literalRegExp ''HEAD'' ''/hostroute'' None hostRoute \<and>
   \<not> satisfies literalRegExp ''HEAD'' ''/hostroute'' None apiRoute \<and>
   getRoute literalRegExp exampleRoutes ''HEAD'' ''/hostroute'' None = Inr None"
proof -
  have valid: "\<forall>r \<in> set exampleRoutes. validateRoute literalRegExp r = Inr ()"
    by (simp add: exampleRoutes_def validateRoute_def literalRegExp_def publicRoute_def
        hostRoute_def apiRoute_def)
  have sat: "satisfies literalRegExp ''GET'' ''/public/data'' None publicRoute"
    "satisfies literalRegExp ''GET'' ''/public/data'' None apiRoute"
    by (simp_all add: satisfies_def matches_def literalRegExp_def publicRoute_def apiRoute_def)
  have unsat: "\<not> satisfies literalRegExp ''HEAD'' ''/hostroute'' None publicRoute"
    "\<not> satisfies literalRegExp ''HEAD'' ''/hostroute'' None hostRoute"
    "\<not> satisfies literalRegExp ''HEAD'' ''/hostroute'' None apiRoute"
    by (simp_all add: satisfies_def matches_def literalRegExp_def publicRoute_def
        hostRoute_def apiRoute_def)
  have none: "getRoute literalRegExp exampleRoutes ''HEAD'' ''/hostroute'' None = Inr None"
    using getRoute_first_match [OF valid, of "''HEAD''" "''/hostroute''" None] unsat
    by (simp add: exampleRoutes_def)
  have "\<exists>re m. literalRegExp (path publicRoute) = Inr re \<and> re ''/public/data'' = Some m \<and>
          getRoute literalRegExp exampleRoutes ''GET'' ''/public/data'' None =
            Inr (Some (publicRoute, m))"
    using getRoute_first_match [OF valid, of "''GET''" "''/public/data''" None,
        THEN conjunct2, rule_format, of "[]" publicRoute "[hostRoute, apiRoute]"] sat(1)
    by (simp add: exampleRoutes_def)
  then have first: "getRoute literalRegExp exampleRoutes ''GET'' ''/public/data'' None =
     Inr (Some (publicRoute, [''/public'']))"
    by (auto simp: literalRegExp_def publicRoute_def)
  from valid sat unsat none first show ?thesis
    by (simp add: exampleRoutes_def)
qed

subsection \<open>The grant index\<close>

lemma read_examples:
  "read exampleRoles ''reader'' = Own reader"
  "read exampleRoles ''ghost'' = Undefined"
  "read exampleRoles ''constructor'' = Inherited (Builtin ''Object'')"
  by (simp_all add: read_def objectPrototype_def exampleRoles_def)

lemma addGrants_reader:
  "addGrants (grants reader) [] = [(''api'', [(''GET'', True)]), (''files'', [(''*'', True)])]"
  by (simp add: reader_def addGrant_def read_def objectPrototype_def assign_def)

lemma exampleGrants_index: "getGrantIndex exampleUsers exampleRoles = Inr exampleGrants"
  by (simp add: getGrantIndex_def exampleUsers_def exampleGrants_def alice_def john_def
      read_examples addGrants_reader assign_def)


text \<open>
  C7. Neither \<open>ghost\<close> nor \<open>constructor\<close> is a role of the role index, and both pass
  \<open>validateUser\<close> as role names. With the roles \<open>reader\<close> and \<open>ghost\<close>, \<open>john\<close> gets the
  grants of \<open>reader\<close>: \<open>ghost\<close> is ignored. With the roles \<open>reader\<close> and \<open>constructor\<close>
  the build throws a \<open>TypeError\<close>: \<open>roleIndex[roleName]\<close> is the inherited function
  \<open>Object\<close>, truthy, and its \<open>grants\<close> is \<open>undefined\<close>, which line 498 iterates.
\<close>

theorem getGrantIndex_inherited_role_name:
  "lookup exampleRoles ''ghost'' = None \<and> lookup exampleRoles ''constructor'' = None \<and>
   user.roles john = Some [''reader'', ''ghost''] \<and>
   getGrantIndex [(''john'', john)] exampleRoles =
     Inr [(''john'', [(''api'', [(''GET'', True)]), (''files'', [(''*'', True)])])] \<and>
   validateUser (john\<lparr>user.roles := Some [''reader'', ''constructor'']\<rparr>) = Inr () \<and>
   getGrantIndex [(''john'', john\<lparr>user.roles := Some [''reader'', ''constructor'']\<rparr>)]
     exampleRoles = Inl TypeError"
  by (simp add: getGrantIndex_def validateUser_def john_def read_examples addGrants_reader
      assign_def truthyValue_def)
    (simp add: exampleRoles_def)

text \<open>
  C4. \<open>validateUser\<close> accepts \<open>bob\<close>, a user without the key \<open>roles\<close> and without
  \<open>admin\<close>, and \<open>getUserIndex\<close> indexes that user; \<open>getGrantIndex\<close> then throws a
  \<open>TypeError\<close> at the loop over \<open>user.roles\<close>. With \<open>roles: []\<close> the same user gets the
  empty entry. So an absent \<open>roles\<close> is not treated as the empty list by the grant index
  builder.
\<close>

theorem getGrantIndex_absent_roles:
  "validateUser bob = Inr () \<and> getUserIndex [bob] = Inr [(''bob'', bob)] \<and>
   getGrantIndex [(''bob'', bob)] exampleRoles = Inl TypeError \<and>
   getGrantIndex [(''bob'', bob\<lparr>user.roles := Some []\<rparr>)] exampleRoles = Inr [(''bob'', [])]"
  by (simp add: validateUser_def getUserIndex_def getGrantIndex_def bob_def has_key_def
      read_def objectPrototype_def assign_def)

lemma getGrantIndex_loop_raises:
  "(userName, u) \<in> set ui \<Longrightarrow> admin u \<noteq> Some True \<Longrightarrow> user.roles u = None \<Longrightarrow>
   \<exists>e. getGrantIndex_loop ui ri acc = Inl e"
  by (induction ui arbitrary: acc) (auto split: option.splits sum.splits)

subsection \<open>The two ports\<close>

text \<open>
  C9. With \<open>METRICS_PORT=9090\<close> the configured metrics port is \<open>9090 | 8181 = 16375\<close>, not
  9090, while \<open>HTTP_PORT=9090\<close> gives the proxy port 9090 through \<open>||\<close>. With
  \<open>METRICS_PORT\<close> unset the metrics port is 8181.
\<close>

theorem metricsPort_bitwise_or:
  "metricsPort [(''METRICS_PORT'', ''9090'')] = 16375 \<and>
   port [(''HTTP_PORT'', ''9090'')] = 9090 \<and> metricsPort [] = 8181"
  by (simp add: metricsPort_def port_def toNumber_def toInt32_def digit_def)

subsection \<open>Reloading\<close>

lemma openAll_allOpen:
  "allOpen d \<Longrightarrow>
   openAll d s =
     (None, s\<lparr>openHandles := openHandles s @ [routesHandle, usersHandle, rolesHandle, tokensHandle]\<rparr>)"
  by (simp add: allOpen_def openAll_def)

lemma sameMTime_frame:
  "sameMTime (s\<lparr>isReloading := a\<rparr>) m = sameMTime s m"
  "sameMTime (s\<lparr>openHandles := hs\<rparr>) m = sameMTime s m"
  by (simp_all add: sameMTime_def)

lemma reloadConfig_unchanged:
  assumes "allOpen d" and "maxMTime d = Inr m" and "lastReloadMTime s = Some m" and "m \<noteq> 0"
  shows "reloadConfig RegExp now d s =
     (None, s\<lparr>isReloading := False, lastReloadTime := Some now, lastReloadErrorTime := None,
               openHandles := closeAll (openHandles s @ [routesHandle, usersHandle, rolesHandle, tokensHandle])\<rparr>)"
  using assms
  by (simp add: reloadConfig_def openAll_allOpen tryBlock_def sameMTime_def truthy_def finallyBlock_def)

lemma reloadConfig_failed:
  assumes "allOpen d" and "maxMTime d = Inr m"
    and "\<not> sameMTime s m"
    and "buildConfig RegExp d = Inl e" and "truthy (lastReloadTime s)"
  shows "reloadConfig RegExp now d s =
     (None, s\<lparr>isReloading := False, lastReloadTime := Some now, lastReloadErrorTime := None,
               lastReloadMTime := Some m, logged := logged s @ [LoggedError e],
               openHandles := closeAll (openHandles s @ [routesHandle, usersHandle, rolesHandle, tokensHandle])\<rparr>)"
  using assms
  by (simp add: reloadConfig_def openAll_allOpen tryBlock_def sameMTime_frame catchBlock_def finallyBlock_def)

lemma reloadConfig_succeeded:
  assumes "allOpen d" and "maxMTime d = Inr m"
    and "\<not> sameMTime s m"
    and "buildConfig RegExp d = Inr b"
  shows "reloadConfig RegExp now d s =
     (None, (storeConfig b s)\<lparr>isReloading := False, lastReloadTime := Some now, lastReloadErrorTime := None,
               lastReloadMTime := Some m,
               openHandles := closeAll (openHandles s @ [routesHandle, usersHandle, rolesHandle, tokensHandle])\<rparr>)"
  using assms
  by (simp add: reloadConfig_def openAll_allOpen tryBlock_def sameMTime_frame finallyBlock_def storeConfig_def)

lemma reloadConfig_cleanup:
  assumes "allOpen d"
  shows "\<not> isReloading (snd (reloadConfig RegExp now d s))"
    and "openHandles (snd (reloadConfig RegExp now d s)) =
         closeAll (openHandles s @ [routesHandle, usersHandle, rolesHandle, tokensHandle])"
  using assms
  by (auto simp: reloadConfig_def openAll_allOpen tryBlock_def catchBlock_def finallyBlock_def
      storeConfig_def Let_def split: sum.splits option.splits prod.splits if_splits)

lemma forEach_all: "forEach f xs = Inr () \<Longrightarrow> \<forall>x \<in> set xs. f x = Inr ()"
  by (induction xs) (auto split: sum.splits)

lemma buildConfig_routes_valid:
  "buildConfig RegExp d = Inr b \<Longrightarrow> \<forall>r \<in> set (builtRoutes b). validateRoute RegExp r = Inr ()"
  by (auto simp: buildConfig_def bind_def dest: forEach_all split: sum.splits)

lemma snapshot_frame:
  "snapshot (s\<lparr>isReloading := a\<rparr>) = snapshot s"
  "snapshot (s\<lparr>lastReloadTime := t\<rparr>) = snapshot s"
  "snapshot (s\<lparr>lastReloadErrorTime := t'\<rparr>) = snapshot s"
  "snapshot (s\<lparr>lastReloadMTime := t''\<rparr>) = snapshot s"
  "snapshot (s\<lparr>logged := l\<rparr>) = snapshot s"
  "snapshot (s\<lparr>openHandles := hs\<rparr>) = snapshot s"
  by (simp_all add: snapshot_def)

lemma snapshot_storeConfig:
  "snapshot (storeConfig b s) =
     (Some (builtRoutes b), Some (builtTokenIndex b), Some (builtUserIndex b),
      Some (builtRoleIndex b), Some (builtGrantIndex b))"
  by (simp add: snapshot_def storeConfig_def)

text \<open>The documents of the example disks, evaluated.\<close>

lemma exampleTokenDocs_index:
  "getTokenIndex [\<lparr>token = ''T1'', user = ''john''\<rparr>, \<lparr>token = ''T2'', user = ''alice''\<rparr>] =
     Inr exampleTokens"
  by (simp add: getTokenIndex_def has_key_def read_def objectPrototype_def assign_def
      exampleTokens_def)

lemma exampleUsers_index: "getUserIndex [alice, john] = Inr exampleUsers"
  by (simp add: getUserIndex_def has_key_def read_def objectPrototype_def assign_def
      exampleUsers_def alice_def john_def)

lemma exampleRoles_index: "getRoleIndex [reader] = Inr exampleRoles"
  by (simp add: getRoleIndex_def has_key_def read_def objectPrototype_def assign_def
      exampleRoles_def reader_def)

lemma exampleRoutes_valid:
  "forEach (validateRoute literalRegExp) exampleRoutes = Inr ()"
  "forEach (validateRoute literalRegExp) [publicRoute] = Inr ()"
  by (simp_all add: exampleRoutes_def validateRoute_def literalRegExp_def publicRoute_def
      hostRoute_def apiRoute_def)

lemma exampleDocs_valid:
  "forEach validateUser [alice, john] = Inr ()"
  "forEach validateRole [reader] = Inr ()"
  "forEach validateToken [\<lparr>token = ''T1'', user = ''john''\<rparr>, \<lparr>token = ''T2'', user = ''alice''\<rparr>] = Inr ()"
  by (simp_all add: validateUser_def validateRole_def validateToken_def alice_def john_def reader_def)

lemmas example_builds = exampleTokenDocs_index exampleUsers_index exampleRoles_index
  exampleGrants_index exampleRoutes_valid exampleDocs_valid

lemma buildConfig_goodDisk:
  "buildConfig literalRegExp goodDisk =
     Inr \<lparr>builtRoutes = exampleRoutes, builtUsers = [alice, john], builtRoles = [reader],
          builtTokens = [\<lparr>token = ''T1'', user = ''john''\<rparr>, \<lparr>token = ''T2'', user = ''alice''\<rparr>],
          builtTokenIndex = exampleTokens, builtRoleIndex = exampleRoles,
          builtUserIndex = exampleUsers, builtGrantIndex = exampleGrants\<rparr>"
  by (simp add: buildConfig_def goodDisk_def bind_def sequenceOf_def example_builds
      del: forEach.simps)

lemma loadedApp_eq:
  "loadedApp =
     \<lparr>routes = Some exampleRoutes, users = Some [alice, john], app.roles = Some [reader],
      tokens = Some [\<lparr>token = ''T1'', user = ''john''\<rparr>, \<lparr>token = ''T2'', user = ''alice''\<rparr>],
      tokenIndex = Some exampleTokens, roleIndex = Some exampleRoles,
      userIndex = Some exampleUsers, grantIndex = Some exampleGrants,
      lastReloadTime = Some 5000, lastReloadMTime = Some 1000, lastReloadErrorTime = None,
      isReloading = False, openHandles = [], logged = [ConfigReloaded 3 1 2 2]\<rparr>"
proof -
  have o: "allOpen goodDisk" by (simp add: allOpen_def goodDisk_def)
  have m: "maxMTime goodDisk = Inr 1000" by (simp add: maxMTime_def goodDisk_def)
  have g: "\<not> sameMTime newApp 1000" by (simp add: sameMTime_def truthy_def newApp_def)
  show ?thesis
    unfolding loadedApp_def reloadConfig_succeeded [OF o m g buildConfig_goodDisk]
    by (simp add: storeConfig_def newApp_def closeAll_def exampleRoutes_def)
qed

lemma disks_open:
  "allOpen goodDisk" "allOpen brokenDisk" "allOpen repairedDisk" "allOpen touchedDisk"
  "allOpen epochDisk" "allOpen epochDiskEdited"
  by (simp_all add: allOpen_def goodDisk_def brokenDisk_def repairedDisk_def touchedDisk_def
      epochDisk_def epochDiskEdited_def)

lemma disks_mtime:
  "maxMTime goodDisk = Inr 1000" "maxMTime brokenDisk = Inr 2000"
  "maxMTime repairedDisk = Inr 2000" "maxMTime touchedDisk = Inr 3000"
  "maxMTime epochDisk = Inr 0" "maxMTime epochDiskEdited = Inr 0"
  by (simp_all add: maxMTime_def goodDisk_def brokenDisk_def repairedDisk_def touchedDisk_def
      epochDisk_def epochDiskEdited_def)

lemma buildConfig_brokenDisk: "buildConfig literalRegExp brokenDisk = Inl YAMLError"
  by (simp add: buildConfig_def brokenDisk_def goodDisk_def bind_def sequenceOf_def)

lemma buildConfig_publicOnly:
  "buildConfig literalRegExp repairedDisk =
     Inr \<lparr>builtRoutes = [publicRoute], builtUsers = [alice, john], builtRoles = [reader],
          builtTokens = [\<lparr>token = ''T1'', user = ''john''\<rparr>, \<lparr>token = ''T2'', user = ''alice''\<rparr>],
          builtTokenIndex = exampleTokens, builtRoleIndex = exampleRoles,
          builtUserIndex = exampleUsers, builtGrantIndex = exampleGrants\<rparr>"
  "buildConfig literalRegExp touchedDisk =
     Inr \<lparr>builtRoutes = [publicRoute], builtUsers = [alice, john], builtRoles = [reader],
          builtTokens = [\<lparr>token = ''T1'', user = ''john''\<rparr>, \<lparr>token = ''T2'', user = ''alice''\<rparr>],
          builtTokenIndex = exampleTokens, builtRoleIndex = exampleRoles,
          builtUserIndex = exampleUsers, builtGrantIndex = exampleGrants\<rparr>"
  "buildConfig literalRegExp epochDiskEdited =
     Inr \<lparr>builtRoutes = [publicRoute], builtUsers = [alice, john], builtRoles = [reader],
          builtTokens = [\<lparr>token = ''T1'', user = ''john''\<rparr>, \<lparr>token = ''T2'', user = ''alice''\<rparr>],
          builtTokenIndex = exampleTokens, builtRoleIndex = exampleRoles,
          builtUserIndex = exampleUsers, builtGrantIndex = exampleGrants\<rparr>"
  by (simp_all add: buildConfig_def repairedDisk_def touchedDisk_def epochDiskEdited_def
      epochDisk_def goodDisk_def bind_def sequenceOf_def example_builds del: forEach.simps)

lemma buildConfig_epochDisk:
  "buildConfig literalRegExp epochDisk =
     Inr \<lparr>builtRoutes = exampleRoutes, builtUsers = [alice, john], builtRoles = [reader],
          builtTokens = [\<lparr>token = ''T1'', user = ''john''\<rparr>, \<lparr>token = ''T2'', user = ''alice''\<rparr>],
          builtTokenIndex = exampleTokens, builtRoleIndex = exampleRoles,
          builtUserIndex = exampleUsers, builtGrantIndex = exampleGrants\<rparr>"
  by (simp add: buildConfig_def epochDisk_def bind_def sequenceOf_def example_builds
      del: forEach.simps)

lemma failedApp_eq:
  "failedApp = loadedApp\<lparr>lastReloadTime := Some 6000, lastReloadMTime := Some 2000,
                 logged := [ConfigReloaded 3 1 2 2, LoggedError YAMLError]\<rparr>"
proof -
  have g: "\<not> sameMTime loadedApp 2000" by (simp add: sameMTime_def loadedApp_eq)
  have p: "truthy (lastReloadTime loadedApp)" by (simp add: truthy_def loadedApp_eq)
  show ?thesis
    unfolding failedApp_def
      reloadConfig_failed [OF disks_open(2) disks_mtime(2) g buildConfig_brokenDisk p]
    by (simp add: loadedApp_eq closeAll_def)
qed

lemma epochApp_eq:
  "epochApp = loadedApp\<lparr>lastReloadMTime := Some 0\<rparr>"
proof -
  have g: "\<not> sameMTime newApp 0" by (simp add: sameMTime_def truthy_def newApp_def)
  show ?thesis
    unfolding epochApp_def reloadConfig_succeeded [OF disks_open(5) disks_mtime(5) g buildConfig_epochDisk]
    by (simp add: storeConfig_def newApp_def closeAll_def exampleRoutes_def loadedApp_eq)
qed

text \<open>
  C5, as stated, fails. The running application meets \<open>brokenDisk\<close>: the reload fails, the
  snapshot is kept and the error is logged once. At the next tick the disk is as it was:
  the build would fail again and log again, but the tick returns at the mtime gate with
  nothing done, the state unchanged but for \<open>lastReloadTime\<close>. The same happens when
  the routes document has been repaired with the mtimes unchanged: the repaired routes
  are not loaded.
\<close>

theorem reload_not_retried_at_same_mtime:
  "snapshot failedApp = snapshot loadedApp \<and>
   logged failedApp = [ConfigReloaded 3 1 2 2, LoggedError YAMLError] \<and>
   buildConfig literalRegExp brokenDisk = Inl YAMLError \<and>
   tick literalRegExp 7000 brokenDisk failedApp = (None, failedApp\<lparr>lastReloadTime := Some 7000\<rparr>) \<and>
   maxMTime repairedDisk = maxMTime brokenDisk \<and>
   map_sum (\<lambda>e. e) builtRoutes (buildConfig literalRegExp repairedDisk) = Inr [publicRoute] \<and>
   routes failedApp = Some exampleRoutes \<and>
   tick literalRegExp 7000 repairedDisk failedApp = (None, failedApp\<lparr>lastReloadTime := Some 7000\<rparr>)"
proof -
  have l: "lastReloadMTime failedApp = Some 2000" by (simp add: failedApp_eq)
  have i: "\<not> isReloading failedApp" by (simp add: failedApp_eq loadedApp_eq)
  have "tick literalRegExp 7000 brokenDisk failedApp = (None, failedApp\<lparr>lastReloadTime := Some 7000\<rparr>)"
    using i by (simp add: tick_def reloadConfig_unchanged [OF disks_open(2) disks_mtime(2) l])
      (simp add: failedApp_eq loadedApp_eq closeAll_def)
  moreover
  have "tick literalRegExp 7000 repairedDisk failedApp = (None, failedApp\<lparr>lastReloadTime := Some 7000\<rparr>)"
    using i by (simp add: tick_def reloadConfig_unchanged [OF disks_open(3) disks_mtime(3) l])
      (simp add: failedApp_eq loadedApp_eq closeAll_def)
  ultimately show ?thesis
    by (simp add: buildConfig_brokenDisk buildConfig_publicOnly disks_mtime)
      (simp add: failedApp_eq loadedApp_eq snapshot_def)
qed

text \<open>
  C5, amended. Let a reload fail in the parse, validate and build step (all four files
  opened and read their mtimes, the maximum \<open>m\<close> not the recorded one) while an earlier
  reload has completed. Then the promise resolves, the snapshot is the one before and the
  error is logged. The failed attempt has recorded \<open>m\<close>; so at a later tick
  \<^item> whose maximum mtime differs from \<open>m\<close>, the step is run in full again: its indices
    are stored when it succeeds, and when it fails the snapshot is kept and its error is
    logged after the first one;
  \<^item> whose maximum mtime is \<open>m\<close> again, \<open>m\<close> not being 0, nothing is parsed: the snapshot
    and the log are as the failed attempt left them.
\<close>

theorem failed_reload_keeps_snapshot_until_mtime_changes:
  assumes prior: "truthy (lastReloadTime s)"
    and clock: "now \<noteq> 0"
    and opened: "allOpen d"
    and mtime: "maxMTime d = Inr m"
    and changed: "\<not> sameMTime s m"
    and failed: "buildConfig RegExp d = Inl e"
  shows "fst (reloadConfig RegExp now d s) = None \<and>
         snapshot (snd (reloadConfig RegExp now d s)) = snapshot s \<and>
         logged (snd (reloadConfig RegExp now d s)) = logged s @ [LoggedError e] \<and>
         (\<forall>now' d' m'.
            allOpen d' \<and> maxMTime d' = Inr m' \<and> m' \<noteq> m \<longrightarrow>
            fst (tick RegExp now' d' (snd (reloadConfig RegExp now d s))) = None \<and>
            (case buildConfig RegExp d' of
               Inr b \<Rightarrow>
                 snapshot (snd (tick RegExp now' d' (snd (reloadConfig RegExp now d s)))) =
                   (Some (builtRoutes b), Some (builtTokenIndex b), Some (builtUserIndex b),
                    Some (builtRoleIndex b), Some (builtGrantIndex b))
             | Inl e' \<Rightarrow>
                 snapshot (snd (tick RegExp now' d' (snd (reloadConfig RegExp now d s)))) =
                   snapshot s \<and>
                 logged (snd (tick RegExp now' d' (snd (reloadConfig RegExp now d s)))) =
                   logged s @ [LoggedError e, LoggedError e'])) \<and>
         (\<forall>now' d'.
            allOpen d' \<and> maxMTime d' = Inr m \<and> m \<noteq> 0 \<longrightarrow>
            fst (tick RegExp now' d' (snd (reloadConfig RegExp now d s))) = None \<and>
            snapshot (snd (tick RegExp now' d' (snd (reloadConfig RegExp now d s)))) = snapshot s \<and>
            logged (snd (tick RegExp now' d' (snd (reloadConfig RegExp now d s)))) =
              logged s @ [LoggedError e])"
proof -
  define s1 where "s1 = snd (reloadConfig RegExp now d s)"
  have first: "reloadConfig RegExp now d s = (None, s1)"
    and s1: "snapshot s1 = snapshot s" "logged s1 = logged s @ [LoggedError e]"
      "\<not> isReloading s1" "lastReloadMTime s1 = Some m" "lastReloadTime s1 = Some now"
    unfolding s1_def reloadConfig_failed [OF opened mtime changed failed prior]
    by (simp_all add: snapshot_frame)
  have later: "fst (tick RegExp now' d' s1) = None \<and>
      (case buildConfig RegExp d' of
         Inr b \<Rightarrow> snapshot (snd (tick RegExp now' d' s1)) =
                   (Some (builtRoutes b), Some (builtTokenIndex b), Some (builtUserIndex b),
                    Some (builtRoleIndex b), Some (builtGrantIndex b))
       | Inl e' \<Rightarrow> snapshot (snd (tick RegExp now' d' s1)) = snapshot s \<and>
                   logged (snd (tick RegExp now' d' s1)) = logged s @ [LoggedError e, LoggedError e'])"
    if "allOpen d'" "maxMTime d' = Inr m'" "m' \<noteq> m" for now' d' m'
  proof -
    from that(3) s1(4) have gate: "\<not> sameMTime s1 m'"
      by (simp add: sameMTime_def)
    from s1(5) clock have prior1: "truthy (lastReloadTime s1)"
      by (simp add: truthy_def)
    show ?thesis
    proof (cases "buildConfig RegExp d'")
      case (Inl e')
      show ?thesis
        using s1 Inl
        by (simp add: tick_def reloadConfig_failed [OF that(1,2) gate Inl prior1] snapshot_frame)
    next
      case (Inr b)
      show ?thesis
        using s1 Inr
        by (simp add: tick_def reloadConfig_succeeded [OF that(1,2) gate Inr] snapshot_frame
            snapshot_storeConfig)
    qed
  qed
  have same: "fst (tick RegExp now' d' s1) = None \<and>
      snapshot (snd (tick RegExp now' d' s1)) = snapshot s \<and>
      logged (snd (tick RegExp now' d' s1)) = logged s @ [LoggedError e]"
    if "allOpen d'" "maxMTime d' = Inr m" "m \<noteq> 0" for now' d'
    using s1 by (simp add: tick_def reloadConfig_unchanged [OF that(1,2) s1(4) that(3)] snapshot_frame)
  from first s1 later same show ?thesis
    unfolding s1_def [symmetric] by simp
qed

theorem failed_reload_keeps_snapshot_until_mtime_changes_witness:
  "truthy (lastReloadTime loadedApp) \<and> allOpen brokenDisk \<and>
   maxMTime brokenDisk = Inr 2000 \<and> \<not> sameMTime loadedApp 2000 \<and>
   buildConfig literalRegExp brokenDisk = Inl YAMLError \<and>
   fst (reloadConfig literalRegExp 6000 brokenDisk loadedApp) = None \<and>
   snapshot failedApp = snapshot loadedApp \<and>
   logged failedApp = logged loadedApp @ [LoggedError YAMLError] \<and>
   allOpen touchedDisk \<and> maxMTime touchedDisk = Inr 3000 \<and>
   snapshot (snd (tick literalRegExp 7000 touchedDisk failedApp)) =
     (Some [publicRoute], Some exampleTokens, Some exampleUsers, Some exampleRoles,
      Some exampleGrants) \<and>
   snapshot (snd (tick literalRegExp 7000 brokenDisk failedApp)) = snapshot loadedApp \<and>
   logged (snd (tick literalRegExp 7000 brokenDisk failedApp)) =
     logged loadedApp @ [LoggedError YAMLError]"
proof -
  have p: "truthy (lastReloadTime loadedApp)" by (simp add: truthy_def loadedApp_eq)
  have c: "(6000::int) \<noteq> 0" by simp
  have g: "\<not> sameMTime loadedApp 2000" by (simp add: sameMTime_def loadedApp_eq)
  note T = failed_reload_keeps_snapshot_until_mtime_changes
    [OF p c disks_open(2) disks_mtime(2) g buildConfig_brokenDisk, folded failedApp_def]
  note first = T [THEN conjunct1] T [THEN conjunct2, THEN conjunct1]
    T [THEN conjunct2, THEN conjunct2, THEN conjunct1]
  note retry = T [THEN conjunct2, THEN conjunct2, THEN conjunct2, THEN conjunct1,
    THEN spec [of _ "7000"], THEN spec [of _ touchedDisk], THEN spec [of _ "3000"]]
  note same = T [THEN conjunct2, THEN conjunct2, THEN conjunct2, THEN conjunct2,
    THEN spec [of _ "7000"], THEN spec [of _ brokenDisk]]
  from retry have r: "snapshot (snd (tick literalRegExp 7000 touchedDisk failedApp)) =
     (Some [publicRoute], Some exampleTokens, Some exampleUsers, Some exampleRoles,
      Some exampleGrants)"
    by (simp add: disks_open disks_mtime buildConfig_publicOnly)
  from same have s: "snapshot (snd (tick literalRegExp 7000 brokenDisk failedApp)) = snapshot loadedApp"
    "logged (snd (tick literalRegExp 7000 brokenDisk failedApp)) =
       logged loadedApp @ [LoggedError YAMLError]"
    by (simp_all add: disks_open disks_mtime)
  from p g first r s show ?thesis
    by (simp add: disks_open disks_mtime buildConfig_brokenDisk)
qed

text \<open>
  C6. The running application meets a disk whose users file cannot be opened. The routes
  file has been opened before it; \<open>reloadConfig\<close> rejects at the second \<open>fs.open\<close>,
  outside the \<open>try\<close>: the routes handle stays open and \<open>isReloading\<close> stays \<open>true\<close>. Every
  later tick then skips the reload, here on a disk with a newer, well-formed routes
  document.
\<close>

theorem reloadConfig_open_failure:
  "reloadConfig literalRegExp 6000 usersMissingDisk loadedApp =
     (Some SystemError, loadedApp\<lparr>isReloading := True, openHandles := [routesHandle]\<rparr>) \<and>
   tick literalRegExp 7000 touchedDisk (loadedApp\<lparr>isReloading := True, openHandles := [routesHandle]\<rparr>) =
     (None, loadedApp\<lparr>isReloading := True, openHandles := [routesHandle]\<rparr>)"
  by (simp add: reloadConfig_def openAll_def usersMissingDisk_def goodDisk_def tick_def loadedApp_eq)

text \<open>
  C8. The application has started on files whose mtimes are all 0, so the recorded
  \<open>lastReloadMTime\<close> is 0, and at the next tick the maximum mtime is 0 again. The
  condition of line 376 is false, 0 being falsy: the tick parses and stores whatever the
  files hold, here a different routes list; on the unchanged disk it loads and logs the
  same configuration a second time.
\<close>

theorem reload_at_epoch_mtime:
  "lastReloadMTime epochApp = Some 0 \<and> maxMTime epochDiskEdited = Inr 0 \<and>
   routes epochApp = Some exampleRoutes \<and>
   routes (snd (tick literalRegExp 6000 epochDiskEdited epochApp)) = Some [publicRoute] \<and>
   logged (snd (tick literalRegExp 6000 epochDisk epochApp)) =
     [ConfigReloaded 3 1 2 2, ConfigReloaded 3 1 2 2]"
proof -
  have g: "\<not> sameMTime epochApp 0" by (simp add: sameMTime_def truthy_def epochApp_eq)
  have i: "\<not> isReloading epochApp" by (simp add: epochApp_eq loadedApp_eq)
  show ?thesis
    using i
    by (simp add: tick_def disks_mtime
        reloadConfig_succeeded [OF disks_open(6) disks_mtime(6) g buildConfig_publicOnly(3)]
        reloadConfig_succeeded [OF disks_open(5) disks_mtime(5) g buildConfig_epochDisk])
      (simp add: epochApp_eq loadedApp_eq storeConfig_def exampleRoutes_def)
qed

end
